theory Spec2Isabelle
  imports Complex_Main "HOL-Library.Sublist"
begin

section \<open>Text, numbers and effects\<close>

text \<open>
  Text is a \<^typ>\<open>string\<close>: the sequence of the units of a JavaScript string, one
  \<^typ>\<open>char\<close> each. The two characters of \<^verbatim>\<open>src/main.ts\<close> outside ASCII (the
  ellipsis of the first debug line and the warning glyph of the report) are written as
  their UTF-8 bytes.

  \<^verbatim>\<open>String.prototype.indexOf\<close> with a one-character search string gives the index of
  the first occurrence, or \<open>-1\<close> when there is none. \<^verbatim>\<open>String.prototype.slice\<close> with one
  argument counts a negative start from the end of the string and clamps it to the
  string.
\<close>

fun indexOf :: "'a list \<Rightarrow> 'a \<Rightarrow> int" where
  "indexOf [] c = - 1"
| "indexOf (x # xs) c =
     (if x = c then 0
      else (let i = indexOf xs c in if i < 0 then - 1 else i + 1))"

definition slice :: "'a list \<Rightarrow> int \<Rightarrow> 'a list" where
  "slice s start =
     (let n = int (length s);
          k = (if start < 0 then max (n + start) 0 else min start n)
      in drop (nat k) s)"

definition ellipsis :: string where
  "ellipsis = [CHR 0xE2, CHR 0x80, CHR 0xA6]"

definition warning_glyph :: string where
  "warning_glyph = [CHR 0xF0, CHR 0x9F, CHR 0x9A, CHR 0xA8]"

text \<open>
  The length of an array, as a template literal prints it: its decimal digits.
\<close>

definition digit :: "nat \<Rightarrow> char" where
  "digit d = ''0123456789'' ! d"

function show_nat :: "nat \<Rightarrow> string" where
  "show_nat n = (if n < 10 then [digit n] else show_nat (n div 10) @ [digit (n mod 10)])"
  by pat_completeness auto
termination
  by (relation "measure id") auto

declare show_nat.simps [simp del]

text \<open>
  An \<^verbatim>\<open>Error\<close> object is identified by its message. Everything the action does to
  the outside is an event of one trace, in program order: the calls of
  \<^verbatim>\<open>core.debug\<close>, \<^verbatim>\<open>core.info\<close>, \<^verbatim>\<open>core.setOutput\<close>, \<^verbatim>\<open>core.setFailed\<close>,
  \<^verbatim>\<open>exec\<close>, \<^verbatim>\<open>process.chdir\<close> and \<^verbatim>\<open>writeFile\<close>, each with its arguments.
\<close>

datatype error = Error (message: string)

datatype js_value = JNumber int | JString string | JUndefined

datatype event =
    Debug string
  | Info string
  | SetOutput string js_value
  | SetFailed string
  | Exec string
  | Chdir string
  | WriteFile string js_value

datatype 'a promise = Resolved 'a | Rejected error

section \<open>Scanner invocation: \<^verbatim>\<open>runNpmAudit\<close>\<close>

text \<open>
  What \<^verbatim>\<open>exec\<close> hands to its callback: the error (\<^verbatim>\<open>null\<close> is \<open>None\<close>), the
  standard output and the diagnostic output of the command.
\<close>

record exec_result =
  exec_error :: "error option"
  stdout :: string
  stderr :: string

record audit_call =
  audit_events :: "event list"
  settled :: "string promise"

definition runNpmAudit :: "(string \<Rightarrow> exec_result) \<Rightarrow> bool \<Rightarrow> audit_call" where
  "runNpmAudit exec fix =
     (let command = ''npm audit --json '' @ (if fix then ''fix'' else '''');
          r = exec command
      in \<lparr> audit_events =
             [Debug (''Running npm audit '' @ (if fix then ''fix'' else '''') @ ellipsis),
              Exec command]
             @ (if stderr r \<noteq> [] then [Debug (''[npm audit]: '' @ stderr r)] else []),
           settled =
             (case exec_error r of
                Some e \<Rightarrow> Rejected e
              | None \<Rightarrow> Resolved (slice (stdout r) (indexOf (stdout r) CHR ''{''))) \<rparr>)"

section \<open>Data model: \<^verbatim>\<open>npm-audit.d.ts\<close>\<close>

text \<open>
  A \<^verbatim>\<open>number\<close> read from the JSON of the tool is a \<^typ>\<open>rat\<close>; it is falsy exactly
  when it is zero. How the engine prints such a number in a template literal is a
  parameter (\<open>num\<close>) of the functions that print one.
\<close>

datatype Severity = SInfo | SLow | SModerate | SHigh | SCritical

fun severity_text :: "Severity \<Rightarrow> string" where
  "severity_text SInfo = ''info''"
| "severity_text SLow = ''low''"
| "severity_text SModerate = ''moderate''"
| "severity_text SHigh = ''high''"
| "severity_text SCritical = ''critical''"

record cvss_score =
  score :: rat
  vectorString :: string

record VulnerabilityReport =
  source :: rat
  rname :: string
  dependency :: string
  title :: string
  url :: string
  rseverity :: Severity
  cvss :: "cvss_score option"
  rrange :: string

text \<open>An entry of \<^verbatim>\<open>via\<close> is a package name or a report.\<close>

datatype via_entry = ViaName string | ViaReport VulnerabilityReport

text \<open>
  \<open>fixAvailable\<close> is \<open>None\<close> for an object without that field, the case that
  \<^verbatim>\<open>'fixAvailable' in data\<close> tests (the objects of \<^verbatim>\<open>__tests__/main.test.ts\<close> have none).
\<close>

record Vulnerability =
  name :: string
  severity :: Severity
  isDirect :: bool
  fixAvailable :: "bool option"
  via :: "via_entry list"
  vrange :: string
  nodes :: "string list"

text \<open>
  \<open>vulnerabilities\<close> lists the entries of the \<^verbatim>\<open>Record<string, Vulnerability>\<close> in the
  order in which \<^verbatim>\<open>Object.values\<close> enumerates them. The two tables of \<open>metadata\<close>
  are association lists from the name of a counter to its number.
\<close>

record audit_metadata =
  metadata_vulnerabilities :: "(string \<times> rat) list"
  metadata_dependencies :: "(string \<times> rat) list"

record NPMAudit =
  auditReportVersion :: rat
  vulnerabilities :: "(string \<times> Vulnerability) list"
  metadata :: audit_metadata

record NPMAuditFix =
  added :: rat
  removed :: rat
  changed :: rat
  audited :: rat
  funding :: rat
  audit :: NPMAudit

text \<open>The value of type \<^verbatim>\<open>NPMAudit | NPMAuditFix\<close> that \<^verbatim>\<open>JSON.parse\<close> gives.\<close>

datatype audit_json = Audit NPMAudit | AuditFix NPMAuditFix

section \<open>Report formatter: \<^verbatim>\<open>formatNpmAuditOutput\<close>\<close>

definition isFixable :: "Vulnerability \<Rightarrow> bool" where
  "isFixable data = (case fixAvailable data of None \<Rightarrow> False | Some b \<Rightarrow> b)"

fun isReport :: "via_entry \<Rightarrow> bool" where
  "isReport (ViaName s) = False"
| "isReport (ViaReport data) = (title data \<noteq> [])"

text \<open>
  A template literal prints a string as it is and a plain object as
  \<^verbatim>\<open>[object Object]\<close>; \<^verbatim>\<open>CSS.escape\<close> converts its argument the same way first.
\<close>

fun via_text :: "via_entry \<Rightarrow> string" where
  "via_text (ViaName s) = s"
| "via_text (ViaReport data) = ''[object Object]''"

text \<open>
  The line that the first loop appends for one fixable vulnerability. \<open>esc\<close> is
  \<^verbatim>\<open>CSS.escape\<close>, of the package \<^verbatim>\<open>css.escape\<close>.
\<close>

definition updated_dependency :: "(string \<Rightarrow> string) \<Rightarrow> Vulnerability \<Rightarrow> string" where
  "updated_dependency esc vul =
     ''* ['' @ name vul @ ''](#user-content-'' @ esc (name vul) @ '')\<newline>''"

text \<open>
  What one round of the second loop appends to \<^verbatim>\<open>output\<close>, in its three parts:
  the heading (line 65), the description (lines 64 and 67 to 77) and the affected
  versions and locations (lines 78 to 82). \<^verbatim>\<open>find\<close> can only return an entry that
  \<open>isReport\<close> accepts, so a report.
\<close>

definition vulnerability_heading :: "(string \<Rightarrow> string) \<Rightarrow> Vulnerability \<Rightarrow> string" where
  \<open>vulnerability_heading esc vul =
     ''\<newline>### '' @ name vul @ '' <a href="#user-content-'' @ esc (name vul)
       @ ''" id="'' @ esc (name vul) @ ''">#</a>\<newline>''\<close>

definition vulnerability_description ::
  "(string \<Rightarrow> string) \<Rightarrow> (rat \<Rightarrow> string) \<Rightarrow> Vulnerability \<Rightarrow> string" where
  "vulnerability_description esc num vul =
     (case find isReport (via vul) of
        Some (ViaReport info) \<Rightarrow>
          (let cvss_text =
             (case cvss info of
                Some c \<Rightarrow> if score c \<noteq> 0 then '' (CVSS '' @ num (score c) @ '')'' else ''''
              | None \<Rightarrow> '''')
           in ''* '' @ title info @ ''\<newline>''
              @ ''* Severity: **'' @ severity_text (rseverity info) @ ''**''
              @ (if rseverity info = SCritical then '' '' @ warning_glyph else '''')
              @ cvss_text @ ''\<newline>''
              @ ''* Reference: ['' @ url info @ '']('' @ url info @ '')\<newline>'')
      | _ \<Rightarrow>
          ''* Caused by vulnerable dependency:\<newline>''
          @ concat (map (\<lambda>v. ''  * ['' @ via_text v @ ''](#user-content-''
                              @ esc (via_text v) @ '')\<newline>'') (via vul)))"

definition vulnerability_usage :: "Vulnerability \<Rightarrow> string" where
  "vulnerability_usage vul =
     ''* Affected versions: '' @ vrange vul @ ''\<newline>''
     @ ''* Package usage:\<newline>''
     @ concat (map (\<lambda>node. ''  * `'' @ node @ ''`\<newline>'') (nodes vul))"

definition fixed_vulnerability ::
  "(string \<Rightarrow> string) \<Rightarrow> (rat \<Rightarrow> string) \<Rightarrow> Vulnerability \<Rightarrow> string" where
  "fixed_vulnerability esc num vul =
     vulnerability_heading esc vul
     @ vulnerability_description esc num vul
     @ vulnerability_usage vul"

text \<open>
  A call of the formatter: its log line, the value it returns (\<open>None\<close> is
  \<^verbatim>\<open>undefined\<close>, the value of a call that ends without a \<^verbatim>\<open>return\<close>), and the text
  its local variable \<^verbatim>\<open>output\<close> holds when the call ends.
\<close>

record format_call =
  format_events :: "event list"
  returned :: "string option"
  final_output :: string

definition formatNpmAuditOutput ::
  "(string \<Rightarrow> string) \<Rightarrow> (rat \<Rightarrow> string) \<Rightarrow> NPMAudit \<Rightarrow> format_call" where
  "formatNpmAuditOutput esc num data =
     (let fixable = filter isFixable (map snd (vulnerabilities data));
          total = length (map snd (vulnerabilities data));
          logged = [Info (''Found '' @ show_nat (length fixable) @ '' fixable issues'')];
          output0 = ''# Audit report\<newline>''
      in if length fixable = 0
         then \<lparr> format_events = logged,
                returned = Some (output0 @ ''No fixable problems found (''
                                 @ show_nat total @ '' unfixable)''),
                final_output = output0 \<rparr>
         else \<lparr> format_events = logged,
                returned = None,
                final_output = output0
                  @ ''\<newline>This audit fix resolves '' @ show_nat (length fixable)
                  @ '' of the total '' @ show_nat total
                  @ '' vulnerabilities found in your project.\<newline>\<newline>## Updated dependencies\<newline>''
                  @ concat (map (updated_dependency esc) fixable)
                  @ ''## Fixed vulnerabilities\<newline>''
                  @ concat (map (fixed_vulnerability esc num) fixable) \<rparr>)"

section \<open>Orchestrator: \<^verbatim>\<open>run\<close>\<close>

text \<open>
  What \<^verbatim>\<open>run\<close> reads from outside and the functions it calls that are not of this
  repository. A function that can throw returns \<open>Inl\<close> of the error, or \<open>Some\<close> of
  it when it has no result. \<open>resolvePath\<close> takes the working directory of the process
  and its argument, \<open>None\<close> for \<^verbatim>\<open>undefined\<close>.
\<close>

record world =
  input_working_directory :: string
  input_output_path :: string
  input_fix :: "error + bool"
  GITHUB_WORKSPACE :: "string option"
  cwd :: string
  resolvePath :: "string \<Rightarrow> string option \<Rightarrow> error + string"
  chdir :: "string \<Rightarrow> error option"
  exec :: "string \<Rightarrow> exec_result"
  JSON_parse :: "string \<Rightarrow> error + audit_json"
  writeFile :: "string \<Rightarrow> string option \<Rightarrow> error option"
  CSS_escape :: "string \<Rightarrow> string"
  number_text :: "rat \<Rightarrow> string"

definition js_string :: "string option \<Rightarrow> js_value" where
  "js_string v = (case v of Some s \<Rightarrow> JString s | None \<Rightarrow> JUndefined)"

text \<open>Lines 129 to 136: the optional write of the report, in the directory \<open>wd\<close>.\<close>

definition run_write :: "world \<Rightarrow> string \<Rightarrow> string option \<Rightarrow> event list" where
  \<open>run_write w wd formattedOutput =
     (if input_output_path w = [] then []
      else
        (case resolvePath w wd (Some (input_output_path w)) of
           Inl e \<Rightarrow> [SetFailed (message e)]
         | Inr resolvedPath \<Rightarrow>
             (case resolvePath w wd (GITHUB_WORKSPACE w) of
                Inl e \<Rightarrow> [SetFailed (message e)]
              | Inr workspace \<Rightarrow>
                  if \<not> prefix workspace resolvedPath
                  then [SetFailed ''Invalid "output-path"'']
                  else WriteFile resolvedPath (js_string formattedOutput)
                       # (case writeFile w resolvedPath formattedOutput of
                            Some e \<Rightarrow> [SetFailed (message e)]
                          | None \<Rightarrow> []))))\<close>

text \<open>Lines 119 to 136: the counters, the report and its write.\<close>

definition run_report :: "world \<Rightarrow> string \<Rightarrow> NPMAudit \<Rightarrow> event list" where
  "run_report w wd data =
     (let issues = map snd (vulnerabilities data);
          totalIssues = int (length issues);
          fixableIssues = int (length (filter isFixable issues));
          formatted = formatNpmAuditOutput (CSS_escape w) (number_text w) data
      in [SetOutput ''issues-total'' (JNumber totalIssues),
          SetOutput ''issues-fixable'' (JNumber fixableIssues),
          SetOutput ''issues-unfixable'' (JNumber (totalIssues - fixableIssues))]
         @ format_events formatted
         @ [SetOutput ''markdown'' (js_string (returned formatted))]
         @ run_write w wd (returned formatted))"

text \<open>
  Lines 108 to 117: the guard \<open>isNPMAuditFix\<close> tells the envelope of the fix mode
  from a bare result; the envelope is logged, and \<^verbatim>\<open>data\<close> becomes its inner
  result. \<open>audit_result\<close> is the value of \<^verbatim>\<open>data\<close> after line 117.
\<close>

definition isNPMAuditFix :: "audit_json \<Rightarrow> bool" where
  "isNPMAuditFix data = (case data of AuditFix d \<Rightarrow> True | Audit d \<Rightarrow> False)"

definition audit_result :: "audit_json \<Rightarrow> NPMAudit" where
  "audit_result data = (case data of AuditFix d \<Rightarrow> audit d | Audit d \<Rightarrow> d)"

definition run_parsed :: "world \<Rightarrow> string \<Rightarrow> audit_json \<Rightarrow> event list" where
  "run_parsed w wd data =
     (case data of
        AuditFix d \<Rightarrow>
          [Info (''[npm audit] Added   '' @ number_text w (added d) @ '' packages''),
           Info (''[npm audit] Removed '' @ number_text w (removed d) @ '' packages''),
           Info (''[npm audit] Changed '' @ number_text w (changed d) @ '' packages''),
           Info (''[npm audit] Audited '' @ number_text w (audited d) @ '' packages'')]
      | Audit d \<Rightarrow> [])
     @ run_report w wd (audit_result data)"

text \<open>
  Lines 95 to 107: the inputs, the working directory, the scanner and the parser. The
  result is the trace of a run that ends there with a failure, or the trace so far with
  the working directory and the parsed value.
\<close>

definition working_directory :: "world \<Rightarrow> string option" where
  "working_directory w =
     (if input_working_directory w \<noteq> [] then Some (input_working_directory w)
      else GITHUB_WORKSPACE w)"

definition run_setup :: "world \<Rightarrow> event list + (event list \<times> string \<times> audit_json)" where
  \<open>run_setup w =
     (let wd = working_directory w
      in case input_fix w of
           Inl e \<Rightarrow> Inl [SetFailed (message e)]
         | Inr fix \<Rightarrow>
             (case resolvePath w (cwd w) wd of
                Inl e \<Rightarrow> Inl [SetFailed (message e)]
              | Inr resolvedWD \<Rightarrow>
                  (let entered = [Debug (''Setting working directory to "'' @ resolvedWD @ ''".''),
                                  Chdir resolvedWD]
                   in case chdir w resolvedWD of
                        Some e \<Rightarrow> Inl (entered @ [SetFailed (message e)])
                      | None \<Rightarrow>
                          (let call = runNpmAudit (exec w) fix
                           in case settled call of
                                Rejected e \<Rightarrow>
                                  Inl (entered @ audit_events call @ [SetFailed (message e)])
                              | Resolved out \<Rightarrow>
                                  (case JSON_parse w out of
                                     Inl e \<Rightarrow>
                                       Inl (entered @ audit_events call
                                            @ [SetFailed (message e)])
                                   | Inr data \<Rightarrow>
                                       Inr (entered @ audit_events call,
                                            resolvedWD, data))))))\<close>

text \<open>
  The whole of \<^verbatim>\<open>run\<close>: every error thrown inside its \<^verbatim>\<open>try\<close> ends the run with
  \<^verbatim>\<open>core.setFailed(error.message)\<close>.
\<close>

definition run :: "world \<Rightarrow> event list" where
  "run w =
     (case run_setup w of
        Inl trace \<Rightarrow> trace
      | Inr (trace, wd, data) \<Rightarrow> trace @ run_parsed w wd data)"

text \<open>Observations of a trace: the outputs set and the files written, in order.\<close>

definition outputs_of :: "event list \<Rightarrow> (string \<times> js_value) list" where
  "outputs_of trace = concat (map (\<lambda>ev. case ev of SetOutput n v \<Rightarrow> [(n, v)] | _ \<Rightarrow> []) trace)"

definition writes_of :: "event list \<Rightarrow> (string \<times> js_value) list" where
  "writes_of trace = concat (map (\<lambda>ev. case ev of WriteFile p v \<Rightarrow> [(p, v)] | _ \<Rightarrow> []) trace)"

section \<open>Sample inputs\<close>

text \<open>
  The values of the functions from outside at the inputs of the examples:
  \<^verbatim>\<open>CSS.escape\<close> leaves a name of letters and hyphens as it is and puts a backslash
  before each of \<^verbatim>\<open>[\<close>, the space and \<^verbatim>\<open>]\<close>; the engine prints 6.5 as
  \<^verbatim>\<open>6.5\<close> and a natural number by its digits; \<^verbatim>\<open>path.resolve\<close> returns an
  absolute normalised path as it is and throws at \<^verbatim>\<open>undefined\<close>; \<^verbatim>\<open>JSON.parse\<close>
  reads the one text it is given here and throws at any other.
\<close>

definition sample_escape :: "string \<Rightarrow> string" where
  "sample_escape s =
     (if s = ''[object Object]''
      then [CHR 0x5C] @ ''[object'' @ [CHR 0x5C] @ '' Object'' @ [CHR 0x5C] @ '']''
      else s)"

definition sample_number_text :: "rat \<Rightarrow> string" where
  "sample_number_text r = (if r = 13 / 2 then ''6.5'' else show_nat (nat \<lfloor>r\<rfloor>))"

definition sample_resolve :: "string \<Rightarrow> string option \<Rightarrow> error + string" where
  \<open>sample_resolve dir p =
     (case p of
        None \<Rightarrow> Inl (Error ''The "paths[0]" argument must be of type string. Received undefined'')
      | Some s \<Rightarrow> Inr s)\<close>

definition audit_of :: "(string \<times> Vulnerability) list \<Rightarrow> NPMAudit" where
  "audit_of vs = \<lparr> auditReportVersion = 2, vulnerabilities = vs,
     metadata = \<lparr> metadata_vulnerabilities = [], metadata_dependencies = [] \<rparr> \<rparr>"

definition sample_parse :: "string \<Rightarrow> error + audit_json" where
  \<open>sample_parse s =
     (if s = ''{"auditReportVersion":2,"vulnerabilities":{},"metadata":{"vulnerabilities":{},"dependencies":{}}}''
      then Inr (Audit (audit_of []))
      else Inl (Error ''Unexpected end of JSON input''))\<close>

text \<open>
  The finding of \<^verbatim>\<open>pr-content.md\<close>, one that cannot be fixed, and variants of the
  first: a critical report, a report whose score is zero, a report with no title.
\<close>

definition tough_cookie_report :: VulnerabilityReport where
  "tough_cookie_report =
     \<lparr> source = 1097682, rname = ''tough-cookie'', dependency = ''tough-cookie'',
       title = ''tough-cookie Prototype Pollution vulnerability'',
       url = ''https://github.com/advisories/GHSA-72xf-g2v4-qvf3'',
       rseverity = SModerate,
       cvss = Some \<lparr> score = 13 / 2,
                     vectorString = ''CVSS:3.1/AV:N/AC:L/PR:N/UI:N/S:U/C:L/I:L/A:N'' \<rparr>,
       rrange = ''<4.1.3'' \<rparr>"

definition tough_cookie :: Vulnerability where
  "tough_cookie =
     \<lparr> name = ''tough-cookie'', severity = SModerate, isDirect = False,
       fixAvailable = Some True, via = [ViaReport tough_cookie_report],
       vrange = ''<4.1.3'', nodes = [''node_modules/tough-cookie''] \<rparr>"

definition unfixable_foo :: Vulnerability where
  "unfixable_foo =
     \<lparr> name = ''foo'', severity = SLow, isDirect = True, fixAvailable = None,
       via = [ViaName ''bar''], vrange = ''*'', nodes = [''node_modules/foo''] \<rparr>"

definition critical_report :: VulnerabilityReport where
  "critical_report = tough_cookie_report \<lparr> rseverity := SCritical \<rparr>"

definition zero_score_report :: VulnerabilityReport where
  "zero_score_report =
     tough_cookie_report \<lparr> cvss := Some \<lparr> score = 0, vectorString = '''' \<rparr> \<rparr>"

definition untitled_report :: VulnerabilityReport where
  "untitled_report = tough_cookie_report \<lparr> title := '''' \<rparr>"

text \<open>
  A run in the workspace \<^verbatim>\<open>/ws\<close> without fix mode: the tool prints a notice and a
  result with no vulnerability, and every call from outside succeeds. The output path
  is the parameter.
\<close>

definition sample_world :: "string \<Rightarrow> world" where
  \<open>sample_world path =
     \<lparr> input_working_directory = '''',
       input_output_path = path,
       input_fix = Inr False,
       GITHUB_WORKSPACE = Some ''/ws'',
       cwd = ''/ws'',
       resolvePath = sample_resolve,
       chdir = (\<lambda>dir. None),
       exec = (\<lambda>command.
         \<lparr> exec_error = None,
           stdout = ''up to date\<newline>{"auditReportVersion":2,"vulnerabilities":{},"metadata":{"vulnerabilities":{},"dependencies":{}}}'',
           stderr = '''' \<rparr>),
       JSON_parse = sample_parse,
       writeFile = (\<lambda>p content. None),
       CSS_escape = sample_escape,
       number_text = sample_number_text \<rparr>\<close>

text \<open>
  A run in fix mode whose parser gives an envelope around a result with one finding
  that can be fixed and one that cannot.
\<close>

definition fix_envelope :: NPMAuditFix where
  "fix_envelope =
     \<lparr> added = 1, removed = 0, changed = 2, audited = 120, funding = 9,
       audit = audit_of [(''tough-cookie'', tough_cookie), (''foo'', unfixable_foo)] \<rparr>"

definition fix_world :: world where
  "fix_world =
     (sample_world '''')
       \<lparr> input_fix := Inr True, JSON_parse := (\<lambda>s. Inr (AuditFix fix_envelope)) \<rparr>"

text \<open>
  The containment that the guard of line 131 is meant to decide, for a workspace root
  written without a separator at its end: the path is the root or lies below it.
\<close>

definition inside_workspace :: "string \<Rightarrow> string \<Rightarrow> bool" where
  "inside_workspace ws p = (p = ws \<or> prefix (ws @ ''/'') p)"

section \<open>Properties of the scanner invocation\<close>

lemma indexOf_absent: "c \<notin> set s \<Longrightarrow> indexOf s c = - 1"
  by (induction s) (auto simp add: Let_def)

lemma indexOf_present:
  "c \<in> set s \<Longrightarrow> indexOf s c = int (length (takeWhile (\<lambda>x. x \<noteq> c) s))"
proof (induction s)
  case Nil
  then show ?case by simp
next
  case (Cons x xs)
  show ?case
  proof (cases "x = c")
    case True
    then show ?thesis by simp
  next
    case False
    with Cons show ?thesis by (simp add: Let_def)
  qed
qed

lemma slice_indexOf_present:
  assumes "c \<in> set s"
  shows "slice s (indexOf s c) = dropWhile (\<lambda>x. x \<noteq> c) s"
proof -
  let ?k = "length (takeWhile (\<lambda>x. x \<noteq> c) s)"
  have "?k \<le> length s" by (rule length_takeWhile_le)
  then have "slice s (int ?k) = drop ?k s"
    by (simp add: slice_def Let_def min_def)
  also have "\<dots> = dropWhile (\<lambda>x. x \<noteq> c) s"
    by (rule dropWhile_eq_drop [symmetric])
  finally show ?thesis using assms by (simp add: indexOf_present)
qed

lemma slice_indexOf_absent:
  assumes "c \<notin> set s"
  shows "slice s (indexOf s c) = (if s = [] then [] else [last s])"
proof (cases "s = []")
  case True
  then show ?thesis by (simp add: slice_def)
next
  case False
  then have "0 < length s" by simp
  then have "slice s (- 1) = drop (length s - 1) s"
    by (simp add: slice_def Let_def max_def nat_diff_distrib')
  also have "\<dots> = [last s]"
    using False by (metis append_butlast_last_id append_eq_conv_conj length_butlast)
  finally show ?thesis using assms False by (simp add: indexOf_absent)
qed

text \<open>
  C5. When the command succeeds and its standard output holds a \<open>{\<close>, the promise
  resolves with the output from its first \<open>{\<close> on: everything before is dropped.
\<close>

theorem runNpmAudit_strips_preamble:
  assumes "exec_error (tool (''npm audit --json '' @ (if fix then ''fix'' else ''''))) = None"
    and "CHR ''{'' \<in> set (stdout (tool (''npm audit --json '' @ (if fix then ''fix'' else ''''))))"
  shows "settled (runNpmAudit tool fix) =
    Resolved (dropWhile (\<lambda>c. c \<noteq> CHR ''{'')
      (stdout (tool (''npm audit --json '' @ (if fix then ''fix'' else '''')))))"
  using assms by (simp add: runNpmAudit_def Let_def slice_indexOf_present)

theorem runNpmAudit_strips_preamble_witness:
  "settled (runNpmAudit
     (\<lambda>command. \<lparr> exec_error = None,
        stdout = ''add foo 6.5.4 -> 6.5.5\<newline>add bar 0.1.0 -> 1.0.0\<newline>{\<newline>}'',
        stderr = '''' \<rparr>) False) = Resolved ''{\<newline>}''"
  using runNpmAudit_strips_preamble
    [of "\<lambda>command. \<lparr> exec_error = None,
        stdout = ''add foo 6.5.4 -> 6.5.5\<newline>add bar 0.1.0 -> 1.0.0\<newline>{\<newline>}'',
        stderr = '''' \<rparr>" False]
  by simp

text \<open>
  C2. At a standard output with no \<open>{\<close>, \<^verbatim>\<open>indexOf\<close> is \<open>-1\<close> and
  \<^verbatim>\<open>slice(-1)\<close> keeps the last unit only: for the output \<^verbatim>\<open>npm ERR\<close> the promise
  resolves with \<^verbatim>\<open>R\<close>, not with the whole output.
\<close>

theorem runNpmAudit_no_brace_keeps_last_unit:
  "settled (runNpmAudit
     (\<lambda>command. \<lparr> exec_error = None, stdout = ''npm ERR'', stderr = '''' \<rparr>) False)
   = Resolved ''R''"
  by (simp add: runNpmAudit_def Let_def slice_def)

text \<open>
  C8. When the command fails, the promise is rejected with the very error that
  \<^verbatim>\<open>exec\<close> reported, and the command was executed once. Whether it fails or not, a
  non-empty diagnostic output is logged at debug level after the tag
  \<^verbatim>\<open>[npm audit]: \<close>, and an empty one is not logged.
\<close>

theorem runNpmAudit_failure_and_diagnostics:
  "(\<forall>e. exec_error (tool (''npm audit --json '' @ (if fix then ''fix'' else ''''))) = Some e
      \<longrightarrow> settled (runNpmAudit tool fix) = Rejected e)
   \<and> [c. Exec c \<leftarrow> audit_events (runNpmAudit tool fix)]
       = [''npm audit --json '' @ (if fix then ''fix'' else '''')]
   \<and> [m. Debug m \<leftarrow> audit_events (runNpmAudit tool fix)]
       = (''Running npm audit '' @ (if fix then ''fix'' else '''') @ ellipsis)
         # (if stderr (tool (''npm audit --json '' @ (if fix then ''fix'' else ''''))) = []
            then []
            else [''[npm audit]: ''
                  @ stderr (tool (''npm audit --json '' @ (if fix then ''fix'' else '''')))])"
  by (simp add: runNpmAudit_def Let_def)

theorem runNpmAudit_failure_and_diagnostics_witness:
  "settled (runNpmAudit
     (\<lambda>command. \<lparr> exec_error = Some (Error ''Some error''), stdout = '''',
        stderr = ''An error happened'' \<rparr>) False) = Rejected (Error ''Some error'')
   \<and> Debug ''[npm audit]: An error happened''
       \<in> set (audit_events (runNpmAudit
     (\<lambda>command. \<lparr> exec_error = Some (Error ''Some error''), stdout = '''',
        stderr = ''An error happened'' \<rparr>) False))"
  using runNpmAudit_failure_and_diagnostics
    [of "\<lambda>command. \<lparr> exec_error = Some (Error ''Some error''), stdout = '''',
        stderr = ''An error happened'' \<rparr>" False]
  by (simp add: runNpmAudit_def Let_def)

section \<open>Properties of the report formatter\<close>

lemma show_nat_0: "show_nat 0 = ''0''"
  by (simp add: show_nat.simps digit_def)

lemma show_nat_1: "show_nat (Suc 0) = ''1''"
  by (simp add: show_nat.simps digit_def)

lemma filter_isFixable_empty:
  "(filter isFixable (map snd vs) = []) = (\<forall>(k, v)\<in>set vs. fixAvailable v \<noteq> Some True)"
  by (induction vs) (auto simp: isFixable_def split: option.splits)

lemma find_after_rejected:
  "\<forall>e\<in>set pre. \<not> P e \<Longrightarrow> P x \<Longrightarrow> find P (pre @ x # post) = Some x"
  by (induction pre) simp_all

lemma find_isReport_names: "find isReport (map ViaName names) = None"
  by (induction names) simp_all

lemma isReport_iff: "isReport e \<longleftrightarrow> (\<exists>r. e = ViaReport r \<and> title r \<noteq> [])"
  by (cases e) simp_all

lemma find_isReport_split:
  assumes "\<exists>e\<in>set vs. isReport e"
  shows "\<exists>pre info post. vs = pre @ ViaReport info # post \<and> (\<forall>e\<in>set pre. \<not> isReport e)
           \<and> title info \<noteq> []"
proof -
  from split_list_first_prop [OF assms]
  obtain pre x post where v: "vs = pre @ x # post" and x: "isReport x"
    and pre: "\<forall>e\<in>set pre. \<not> isReport e"
    by blast
  from x obtain info where "x = ViaReport info" "title info \<noteq> []"
    by (auto simp: isReport_iff)
  with v pre show ?thesis by blast
qed

lemma formatNpmAuditOutput_fixable_undefined:
  assumes "filter isFixable (map snd (vulnerabilities data)) \<noteq> []"
  shows "returned (formatNpmAuditOutput esc num data) = None"
  using assms by (simp add: formatNpmAuditOutput_def Let_def)

text \<open>
  C1. For the finding of \<^verbatim>\<open>pr-content.md\<close> the formatter logs
  \<^verbatim>\<open>Found 1 fixable issues\<close> and builds in \<^verbatim>\<open>output\<close> the very text of that file,
  but the call ends without a \<^verbatim>\<open>return\<close>: what it returns is \<^verbatim>\<open>undefined\<close>, not
  the Markdown string.
\<close>

theorem formatNpmAuditOutput_fixable_returns_undefined:
  \<open>returned (formatNpmAuditOutput sample_escape sample_number_text
       (audit_of [(''tough-cookie'', tough_cookie)])) = None
   \<and> format_events (formatNpmAuditOutput sample_escape sample_number_text
       (audit_of [(''tough-cookie'', tough_cookie)])) = [Info ''Found 1 fixable issues'']
   \<and> final_output (formatNpmAuditOutput sample_escape sample_number_text
       (audit_of [(''tough-cookie'', tough_cookie)])) =
     ''# Audit report\<newline>\<newline>This audit fix resolves 1 of the total 1 vulnerabilities found in your project.\<newline>\<newline>## Updated dependencies\<newline>* [tough-cookie](#user-content-tough-cookie)\<newline>## Fixed vulnerabilities\<newline>\<newline>### tough-cookie <a href="#user-content-tough-cookie" id="tough-cookie">#</a>\<newline>* tough-cookie Prototype Pollution vulnerability\<newline>* Severity: **moderate** (CVSS 6.5)\<newline>* Reference: [https://github.com/advisories/GHSA-72xf-g2v4-qvf3](https://github.com/advisories/GHSA-72xf-g2v4-qvf3)\<newline>* Affected versions: <4.1.3\<newline>* Package usage:\<newline>  * `node_modules/tough-cookie`\<newline>''\<close>
  by (simp add: formatNpmAuditOutput_def Let_def audit_of_def tough_cookie_def
      tough_cookie_report_def isFixable_def show_nat_1 updated_dependency_def
      fixed_vulnerability_def vulnerability_heading_def vulnerability_description_def
      vulnerability_usage_def sample_escape_def sample_number_text_def)

text \<open>
  C4. When no entry of the mapping has a truthy \<open>fixAvailable\<close>, the formatter returns
  the heading followed by \<^verbatim>\<open>No fixable problems found (N unfixable)\<close>, \<open>N\<close> the
  number of entries, and nothing more.
\<close>

theorem formatNpmAuditOutput_nothing_fixable:
  assumes "\<forall>(k, v)\<in>set (vulnerabilities data). fixAvailable v \<noteq> Some True"
  shows "returned (formatNpmAuditOutput esc num data) =
       Some (''# Audit report\<newline>No fixable problems found (''
             @ show_nat (length (vulnerabilities data)) @ '' unfixable)'')"
  using assms
  by (simp add: formatNpmAuditOutput_def Let_def filter_isFixable_empty [symmetric])

theorem formatNpmAuditOutput_nothing_fixable_witness:
  "returned (formatNpmAuditOutput sample_escape sample_number_text
       (audit_of [(''foo'', unfixable_foo)]))
     = Some ''# Audit report\<newline>No fixable problems found (1 unfixable)''
   \<and> returned (formatNpmAuditOutput sample_escape sample_number_text (audit_of []))
     = Some ''# Audit report\<newline>No fixable problems found (0 unfixable)''"
  using formatNpmAuditOutput_nothing_fixable
      [of "audit_of [(''foo'', unfixable_foo)]" sample_escape sample_number_text]
    formatNpmAuditOutput_nothing_fixable [of "audit_of []" sample_escape sample_number_text]
  by (simp add: audit_of_def unfixable_foo_def show_nat_0 show_nat_1)

text \<open>
  C7, as amended. An entry of \<^verbatim>\<open>via\<close> counts as a report exactly when it is not a
  string and its title is not empty. The first such entry gives the description: its
  title, its severity in bold with the warning glyph exactly when it is critical, its
  CVSS score in parentheses when it has one that is not zero, and its URL as a link
  to itself. When every entry is a string, the line
  \<^verbatim>\<open>Caused by vulnerable dependency\<close> is followed by one linked bullet for each.
\<close>

theorem via_description:
  "(isReport e \<longleftrightarrow> (\<exists>r. e = ViaReport r \<and> title r \<noteq> []))
   \<and> ((\<forall>e\<in>set pre. \<not> isReport e) \<and> title info \<noteq> [] \<longrightarrow>
        vulnerability_description esc num (vul\<lparr>via := pre @ ViaReport info # post\<rparr>) =
          ''* '' @ title info @ ''\<newline>''
          @ ''* Severity: **'' @ severity_text (rseverity info) @ ''**''
          @ (if rseverity info = SCritical then '' '' @ warning_glyph else '''')
          @ (case cvss info of
               Some c \<Rightarrow> if score c = 0 then '''' else '' (CVSS '' @ num (score c) @ '')''
             | None \<Rightarrow> '''')
          @ ''\<newline>''
          @ ''* Reference: ['' @ url info @ '']('' @ url info @ '')\<newline>'')
   \<and> vulnerability_description esc num (vul\<lparr>via := map ViaName names\<rparr>) =
        ''* Caused by vulnerable dependency:\<newline>''
        @ concat (map (\<lambda>s. ''  * ['' @ s @ ''](#user-content-'' @ esc s @ '')\<newline>'') names)"
proof (intro conjI impI)
  show "isReport e \<longleftrightarrow> (\<exists>r. e = ViaReport r \<and> title r \<noteq> [])"
    by (rule isReport_iff)
next
  assume "(\<forall>e\<in>set pre. \<not> isReport e) \<and> title info \<noteq> []"
  then have "find isReport (pre @ ViaReport info # post) = Some (ViaReport info)"
    by (simp add: find_after_rejected)
  then show "vulnerability_description esc num (vul\<lparr>via := pre @ ViaReport info # post\<rparr>) =
          ''* '' @ title info @ ''\<newline>''
          @ ''* Severity: **'' @ severity_text (rseverity info) @ ''**''
          @ (if rseverity info = SCritical then '' '' @ warning_glyph else '''')
          @ (case cvss info of
               Some c \<Rightarrow> if score c = 0 then '''' else '' (CVSS '' @ num (score c) @ '')''
             | None \<Rightarrow> '''')
          @ ''\<newline>''
          @ ''* Reference: ['' @ url info @ '']('' @ url info @ '')\<newline>''"
    by (simp add: vulnerability_description_def Let_def split: option.splits)
next
  show "vulnerability_description esc num (vul\<lparr>via := map ViaName names\<rparr>) =
        ''* Caused by vulnerable dependency:\<newline>''
        @ concat (map (\<lambda>s. ''  * ['' @ s @ ''](#user-content-'' @ esc s @ '')\<newline>'') names)"
    by (simp add: vulnerability_description_def find_isReport_names comp_def)
qed

theorem via_description_witness:
  "isReport (ViaReport critical_report)
   \<and> vulnerability_description sample_escape sample_number_text
       (tough_cookie\<lparr>via := [ViaName ''bar'', ViaReport critical_report, ViaName ''baz'']\<rparr>) =
     ''* tough-cookie Prototype Pollution vulnerability\<newline>* Severity: **critical** ''
     @ warning_glyph
     @ '' (CVSS 6.5)\<newline>* Reference: [https://github.com/advisories/GHSA-72xf-g2v4-qvf3](https://github.com/advisories/GHSA-72xf-g2v4-qvf3)\<newline>''
   \<and> vulnerability_description sample_escape sample_number_text
       (tough_cookie\<lparr>via := [ViaName ''bar'', ViaName ''baz'']\<rparr>) =
     ''* Caused by vulnerable dependency:\<newline>  * [bar](#user-content-bar)\<newline>  * [baz](#user-content-baz)\<newline>''"
  using via_description [where e = "ViaReport critical_report" and pre = "[ViaName ''bar'']"
      and info = critical_report and post = "[ViaName ''baz'']" and esc = sample_escape
      and num = sample_number_text and vul = tough_cookie and names = "[''bar'', ''baz'']"]
  by (simp add: critical_report_def tough_cookie_report_def sample_escape_def
      sample_number_text_def)

text \<open>
  C7, as stated, fails twice. A report whose CVSS score is present and zero is
  described without any score, where the claim asks for the score in parentheses. And
  when the only report of \<^verbatim>\<open>via\<close> has an empty title, the list under
  \<^verbatim>\<open>Caused by vulnerable dependency\<close> has a bullet for that report too, printed as
  \<^verbatim>\<open>[object Object]\<close>, where the claim asks for one bullet for each string entry.
\<close>

theorem via_description_counterexample:
  "vulnerability_description sample_escape sample_number_text
       (tough_cookie\<lparr>via := [ViaReport zero_score_report]\<rparr>) =
     ''* tough-cookie Prototype Pollution vulnerability\<newline>* Severity: **moderate**\<newline>* Reference: [https://github.com/advisories/GHSA-72xf-g2v4-qvf3](https://github.com/advisories/GHSA-72xf-g2v4-qvf3)\<newline>''
   \<and> cvss zero_score_report = Some \<lparr> score = 0, vectorString = '''' \<rparr>
   \<and> vulnerability_description sample_escape sample_number_text
       (tough_cookie\<lparr>via := [ViaReport untitled_report, ViaName ''bar'']\<rparr>) =
     ''* Caused by vulnerable dependency:\<newline>  * [[object Object]](#user-content-''
     @ [CHR 0x5C] @ ''[object'' @ [CHR 0x5C] @ '' Object'' @ [CHR 0x5C]
     @ ''])\<newline>  * [bar](#user-content-bar)\<newline>''"
  by (simp add: vulnerability_description_def zero_score_report_def untitled_report_def
      tough_cookie_report_def sample_escape_def Let_def)

text \<open>
  C10. When \<^verbatim>\<open>via\<close> holds a report, the text appended for the vulnerability is
  the heading, the description taken from the first report (its title, severity, score
  and reference), and the affected versions and locations, and nothing else: the
  entries before and after that report, strings or not, add no bullet, and the line
  \<^verbatim>\<open>Caused by vulnerable dependency\<close> of the other branch is not appended. It is the
  text the vulnerability would have with that first report as its only entry.
\<close>

theorem first_report_alone_is_rendered:
  assumes \<open>\<exists>e\<in>set (via vul). isReport e\<close>
  shows \<open>\<exists>pre info post. via vul = pre @ ViaReport info # post
           \<and> (\<forall>e\<in>set pre. \<not> isReport e) \<and> isReport (ViaReport info)
           \<and> fixed_vulnerability esc num vul =
               ''\<newline>### '' @ name vul @ '' <a href="#user-content-'' @ esc (name vul)
               @ ''" id="'' @ esc (name vul) @ ''">#</a>\<newline>''
               @ ''* '' @ title info @ ''\<newline>''
               @ ''* Severity: **'' @ severity_text (rseverity info) @ ''**''
               @ (if rseverity info = SCritical then '' '' @ warning_glyph else '''')
               @ (case cvss info of
                    Some c \<Rightarrow> if score c = 0 then '''' else '' (CVSS '' @ num (score c) @ '')''
                  | None \<Rightarrow> '''')
               @ ''\<newline>''
               @ ''* Reference: ['' @ url info @ '']('' @ url info @ '')\<newline>''
               @ ''* Affected versions: '' @ vrange vul @ ''\<newline>''
               @ ''* Package usage:\<newline>''
               @ concat (map (\<lambda>node. ''  * `'' @ node @ ''`\<newline>'') (nodes vul))
           \<and> fixed_vulnerability esc num vul
               = fixed_vulnerability esc num (vul\<lparr>via := [ViaReport info]\<rparr>)\<close>
proof -
  from find_isReport_split [OF assms] obtain pre info post
    where v: "via vul = pre @ ViaReport info # post"
      and pre: "\<forall>e\<in>set pre. \<not> isReport e" and t: "title info \<noteq> []"
    by blast
  from pre t have f: "find isReport (via vul) = Some (ViaReport info)"
    by (simp add: v find_after_rejected)
  have rendered: \<open>fixed_vulnerability esc num vul =
               ''\<newline>### '' @ name vul @ '' <a href="#user-content-'' @ esc (name vul)
               @ ''" id="'' @ esc (name vul) @ ''">#</a>\<newline>''
               @ ''* '' @ title info @ ''\<newline>''
               @ ''* Severity: **'' @ severity_text (rseverity info) @ ''**''
               @ (if rseverity info = SCritical then '' '' @ warning_glyph else '''')
               @ (case cvss info of
                    Some c \<Rightarrow> if score c = 0 then '''' else '' (CVSS '' @ num (score c) @ '')''
                  | None \<Rightarrow> '''')
               @ ''\<newline>''
               @ ''* Reference: ['' @ url info @ '']('' @ url info @ '')\<newline>''
               @ ''* Affected versions: '' @ vrange vul @ ''\<newline>''
               @ ''* Package usage:\<newline>''
               @ concat (map (\<lambda>node. ''  * `'' @ node @ ''`\<newline>'') (nodes vul))\<close>
    using f
    by (simp add: fixed_vulnerability_def vulnerability_heading_def
        vulnerability_description_def vulnerability_usage_def Let_def split: option.splits)
  from f t have same: "fixed_vulnerability esc num vul
      = fixed_vulnerability esc num (vul\<lparr>via := [ViaReport info]\<rparr>)"
    by (simp add: fixed_vulnerability_def vulnerability_heading_def
        vulnerability_description_def vulnerability_usage_def)
  from t have "isReport (ViaReport info)" by simp
  with v pre rendered same show ?thesis by blast
qed

theorem first_report_alone_is_rendered_witness:
  \<open>(\<exists>e\<in>set [ViaName ''bar'', ViaReport tough_cookie_report, ViaName ''baz'']. isReport e)
   \<and> fixed_vulnerability sample_escape sample_number_text
       (tough_cookie\<lparr>via := [ViaName ''bar'', ViaReport tough_cookie_report, ViaName ''baz'']\<rparr>)
     = ''\<newline>### tough-cookie <a href="#user-content-tough-cookie" id="tough-cookie">#</a>\<newline>* tough-cookie Prototype Pollution vulnerability\<newline>* Severity: **moderate** (CVSS 6.5)\<newline>* Reference: [https://github.com/advisories/GHSA-72xf-g2v4-qvf3](https://github.com/advisories/GHSA-72xf-g2v4-qvf3)\<newline>* Affected versions: <4.1.3\<newline>* Package usage:\<newline>  * `node_modules/tough-cookie`\<newline>''
   \<and> fixed_vulnerability sample_escape sample_number_text
       (tough_cookie\<lparr>via := [ViaName ''bar'', ViaReport tough_cookie_report, ViaName ''baz'']\<rparr>)
     = fixed_vulnerability sample_escape sample_number_text tough_cookie\<close>
proof -
  let ?vul = "tough_cookie
      \<lparr>via := [ViaName ''bar'', ViaReport tough_cookie_report, ViaName ''baz'']\<rparr>"
  have h: "\<exists>e\<in>set (via ?vul). isReport e"
    by (simp add: tough_cookie_report_def)
  from first_report_alone_is_rendered [OF h, of sample_escape sample_number_text]
  obtain pre info post
    where v: "via ?vul = pre @ ViaReport info # post"
      and pre: "\<forall>e\<in>set pre. \<not> isReport e"
      and rendered: \<open>fixed_vulnerability sample_escape sample_number_text ?vul =
               ''\<newline>### '' @ name ?vul @ '' <a href="#user-content-''
               @ sample_escape (name ?vul)
               @ ''" id="'' @ sample_escape (name ?vul) @ ''">#</a>\<newline>''
               @ ''* '' @ title info @ ''\<newline>''
               @ ''* Severity: **'' @ severity_text (rseverity info) @ ''**''
               @ (if rseverity info = SCritical then '' '' @ warning_glyph else '''')
               @ (case cvss info of
                    Some c \<Rightarrow> if score c = 0 then ''''
                              else '' (CVSS '' @ sample_number_text (score c) @ '')''
                  | None \<Rightarrow> '''')
               @ ''\<newline>''
               @ ''* Reference: ['' @ url info @ '']('' @ url info @ '')\<newline>''
               @ ''* Affected versions: '' @ vrange ?vul @ ''\<newline>''
               @ ''* Package usage:\<newline>''
               @ concat (map (\<lambda>node. ''  * `'' @ node @ ''`\<newline>'') (nodes ?vul))\<close>
      and same: "fixed_vulnerability sample_escape sample_number_text ?vul
        = fixed_vulnerability sample_escape sample_number_text (?vul\<lparr>via := [ViaReport info]\<rparr>)"
    by blast
  have r: "isReport (ViaReport tough_cookie_report)"
    by (simp add: tough_cookie_report_def)
  from v pre r have i: "info = tough_cookie_report"
    by (cases pre; cases "tl pre") (auto simp: Cons_eq_append_conv)
  have c: "?vul\<lparr>via := [ViaReport tough_cookie_report]\<rparr> = tough_cookie"
    by (simp add: tough_cookie_def)
  have a: \<open>fixed_vulnerability sample_escape sample_number_text ?vul
     = ''\<newline>### tough-cookie <a href="#user-content-tough-cookie" id="tough-cookie">#</a>\<newline>* tough-cookie Prototype Pollution vulnerability\<newline>* Severity: **moderate** (CVSS 6.5)\<newline>* Reference: [https://github.com/advisories/GHSA-72xf-g2v4-qvf3](https://github.com/advisories/GHSA-72xf-g2v4-qvf3)\<newline>* Affected versions: <4.1.3\<newline>* Package usage:\<newline>  * `node_modules/tough-cookie`\<newline>''\<close>
    using rendered
    by (simp add: i tough_cookie_def tough_cookie_report_def sample_escape_def
        sample_number_text_def)
  have b: "fixed_vulnerability sample_escape sample_number_text ?vul
     = fixed_vulnerability sample_escape sample_number_text tough_cookie"
    using same by (simp only: i c)
  from h a b show ?thesis by simp
qed

section \<open>Properties of the orchestrator\<close>

lemma outputs_of_append [simp]: "outputs_of (a @ b) = outputs_of a @ outputs_of b"
  by (simp add: outputs_of_def)

lemma outputs_of_Nil [simp]: "outputs_of [] = []"
  by (simp add: outputs_of_def)

lemma outputs_of_Cons [simp]:
  "outputs_of (ev # t) = (case ev of SetOutput n v \<Rightarrow> [(n, v)] | _ \<Rightarrow> []) @ outputs_of t"
  by (simp add: outputs_of_def)

lemma outputs_of_runNpmAudit: "outputs_of (audit_events (runNpmAudit tool fix)) = []"
  by (simp add: runNpmAudit_def Let_def)

lemma outputs_of_run_write: "outputs_of (run_write w wd formatted) = []"
  by (simp add: run_write_def split: sum.splits option.splits)

lemma outputs_of_format:
  "outputs_of (format_events (formatNpmAuditOutput esc num data)) = []"
  by (simp add: formatNpmAuditOutput_def Let_def)

lemma run_setup_Inr:
  assumes "run_setup w = Inr (pre, wd, data)"
  shows "\<exists>fix out. input_fix w = Inr fix
           \<and> resolvePath w (cwd w) (working_directory w) = Inr wd
           \<and> chdir w wd = None
           \<and> pre = [Debug (''Setting working directory to '' @ [CHR 0x22] @ wd @ [CHR 0x22] @ ''.''),
                    Chdir wd]
                   @ audit_events (runNpmAudit (exec w) fix)
           \<and> settled (runNpmAudit (exec w) fix) = Resolved out
           \<and> JSON_parse w out = Inr data"
  using assms
  by (auto simp: run_setup_def Let_def split: sum.splits option.splits promise.splits)

lemma outputs_of_setup:
  assumes "run_setup w = Inr (pre, wd, data)"
  shows "outputs_of pre = []"
  using run_setup_Inr [OF assms] by (auto simp: outputs_of_runNpmAudit)

lemma count_fixable:
  "length (filter (isFixable \<circ> snd) vs)
     = length (filter (\<lambda>(k, v). fixAvailable v = Some True) vs)"
  by (induction vs) (auto simp: isFixable_def split: option.splits)

lemma count_split:
  "int (length vs) - int (length (filter (\<lambda>(k, v). fixAvailable v = Some True) vs))
     = int (length (filter (\<lambda>(k, v). fixAvailable v \<noteq> Some True) vs))"
  by (induction vs) auto

lemma outputs_of_run_report:
  "outputs_of (run_report w wd d) =
     [(''issues-total'', JNumber (int (length (vulnerabilities d)))),
      (''issues-fixable'',
       JNumber (int (length (filter (\<lambda>(k, v). fixAvailable v = Some True) (vulnerabilities d))))),
      (''issues-unfixable'',
       JNumber (int (length (filter (\<lambda>(k, v). fixAvailable v \<noteq> Some True) (vulnerabilities d))))),
      (''markdown'',
       js_string (returned (formatNpmAuditOutput (CSS_escape w) (number_text w) d)))]"
  by (simp add: run_report_def Let_def outputs_of_format outputs_of_run_write
      count_fixable count_split)

lemma outputs_of_run_parsed:
  "outputs_of (run_parsed w wd data) = outputs_of (run_report w wd (audit_result data))"
  by (simp add: run_parsed_def split: audit_json.splits)

lemma run_write_parser:
  "run_write (w\<lparr>JSON_parse := p\<rparr>) wd formatted = run_write w wd formatted"
  by (simp add: run_write_def cong: if_cong sum.case_cong option.case_cong)

lemma run_report_parser:
  "run_report (w\<lparr>JSON_parse := p\<rparr>) wd d = run_report w wd d"
  by (simp add: run_report_def run_write_parser)

lemma working_directory_parser:
  "working_directory (w\<lparr>JSON_parse := p\<rparr>) = working_directory w"
  by (simp add: working_directory_def)

lemma run_setup_parser:
  assumes "run_setup w = Inr (pre, wd, data)"
  shows "run_setup (w\<lparr>JSON_parse := (\<lambda>s. Inr data')\<rparr>) = Inr (pre, wd, data')"
proof -
  from run_setup_Inr [OF assms] obtain mode out
    where "input_fix w = Inr mode"
      and "resolvePath w (cwd w) (working_directory w) = Inr wd"
      and "chdir w wd = None"
      and "pre = [Debug (''Setting working directory to '' @ [CHR 0x22] @ wd @ [CHR 0x22] @ ''.''),
                  Chdir wd]
                 @ audit_events (runNpmAudit (exec w) mode)"
      and "settled (runNpmAudit (exec w) mode) = Resolved out"
    by blast
  then show ?thesis
    by (simp add: run_setup_def working_directory_parser Let_def)
qed

lemma run_write_rejects:
  assumes "input_output_path w \<noteq> []"
    and "resolvePath w wd (Some (input_output_path w)) = Inr p"
    and "resolvePath w wd (GITHUB_WORKSPACE w) = Inr ws"
    and "\<not> prefix ws p"
  shows "run_write w wd formatted = [SetFailed (''Invalid '' @ [CHR 0x22] @ ''output-path'' @ [CHR 0x22])]"
  using assms by (simp add: run_write_def)

lemma run_write_accepts:
  assumes "input_output_path w \<noteq> []"
    and "resolvePath w wd (Some (input_output_path w)) = Inr p"
    and "resolvePath w wd (GITHUB_WORKSPACE w) = Inr ws"
    and "prefix ws p"
  shows "writes_of (run_write w wd formatted) = [(p, js_string formatted)]"
  using assms by (auto simp: run_write_def writes_of_def split: option.splits)

lemma fix_world_setup:
  "run_setup fix_world =
     Inr ([Debug (''Setting working directory to '' @ [CHR 0x22] @ ''/ws'' @ [CHR 0x22] @ ''.''),
           Chdir ''/ws'',
           Debug (''Running npm audit fix'' @ ellipsis),
           Exec ''npm audit --json fix''],
          ''/ws'', AuditFix fix_envelope)"
  by (simp add: run_setup_def working_directory_def fix_world_def sample_world_def
      sample_resolve_def runNpmAudit_def Let_def)

text \<open>
  C6. In every run that gets as far as the parsed result, the four outputs are, in
  this order: \<^verbatim>\<open>issues-total\<close>, the number of entries of the mapping;
  \<^verbatim>\<open>issues-fixable\<close>, the number of entries whose \<open>fixAvailable\<close> is truthy;
  \<^verbatim>\<open>issues-unfixable\<close>, the number of the other entries; and the report. The total is
  the sum of the other two counters.
\<close>

theorem run_issue_counts:
  assumes "run_setup w = Inr (pre, wd, data)"
  shows "outputs_of (run w) =
     [(''issues-total'', JNumber (int (length (vulnerabilities (audit_result data))))),
      (''issues-fixable'',
       JNumber (int (length (filter (\<lambda>(k, v). fixAvailable v = Some True)
                                    (vulnerabilities (audit_result data)))))),
      (''issues-unfixable'',
       JNumber (int (length (filter (\<lambda>(k, v). fixAvailable v \<noteq> Some True)
                                    (vulnerabilities (audit_result data)))))),
      (''markdown'',
       js_string (returned (formatNpmAuditOutput (CSS_escape w) (number_text w)
                              (audit_result data))))]
   \<and> int (length (vulnerabilities (audit_result data)))
       = int (length (filter (\<lambda>(k, v). fixAvailable v = Some True)
                             (vulnerabilities (audit_result data))))
         + int (length (filter (\<lambda>(k, v). fixAvailable v \<noteq> Some True)
                               (vulnerabilities (audit_result data))))"
proof
  have "outputs_of (run w) = outputs_of pre @ outputs_of (run_parsed w wd data)"
    using assms by (simp add: run_def)
  then show "outputs_of (run w) =
     [(''issues-total'', JNumber (int (length (vulnerabilities (audit_result data))))),
      (''issues-fixable'',
       JNumber (int (length (filter (\<lambda>(k, v). fixAvailable v = Some True)
                                    (vulnerabilities (audit_result data)))))),
      (''issues-unfixable'',
       JNumber (int (length (filter (\<lambda>(k, v). fixAvailable v \<noteq> Some True)
                                    (vulnerabilities (audit_result data)))))),
      (''markdown'',
       js_string (returned (formatNpmAuditOutput (CSS_escape w) (number_text w)
                              (audit_result data))))]"
    by (simp only: outputs_of_setup [OF assms] outputs_of_run_parsed outputs_of_run_report
        append_Nil)
next
  show "int (length (vulnerabilities (audit_result data)))
       = int (length (filter (\<lambda>(k, v). fixAvailable v = Some True)
                             (vulnerabilities (audit_result data))))
         + int (length (filter (\<lambda>(k, v). fixAvailable v \<noteq> Some True)
                               (vulnerabilities (audit_result data))))"
    using count_split [of "vulnerabilities (audit_result data)"] by simp
qed

theorem run_issue_counts_witness:
  "outputs_of (run fix_world) =
     [(''issues-total'', JNumber 2), (''issues-fixable'', JNumber 1),
      (''issues-unfixable'', JNumber 1), (''markdown'', JUndefined)]"
  using run_issue_counts [OF fix_world_setup]
  by (simp add: audit_result_def fix_envelope_def audit_of_def tough_cookie_def
      unfixable_foo_def formatNpmAuditOutput_def Let_def isFixable_def js_string_def)

text \<open>
  C9. When the parsed value is the envelope of the fix mode, the run logs its four
  package counts and goes on with the inner result: from there its trace is the trace
  of a run whose parser gave that inner result itself.
\<close>

theorem run_unwraps_fix_envelope:
  assumes "run_setup w = Inr (pre, wd, data)" and "isNPMAuditFix data"
  shows "\<exists>d. data = AuditFix d
     \<and> run w = pre
         @ [Info (''[npm audit] Added   '' @ number_text w (added d) @ '' packages''),
            Info (''[npm audit] Removed '' @ number_text w (removed d) @ '' packages''),
            Info (''[npm audit] Changed '' @ number_text w (changed d) @ '' packages''),
            Info (''[npm audit] Audited '' @ number_text w (audited d) @ '' packages'')]
         @ run_report w wd (audit d)
     \<and> run (w\<lparr>JSON_parse := (\<lambda>s. Inr (Audit (audit d)))\<rparr>) = pre @ run_report w wd (audit d)"
proof -
  from assms(2) obtain d where d: "data = AuditFix d"
    by (cases data) (simp_all add: isNPMAuditFix_def)
  have "run w = pre @ run_parsed w wd (AuditFix d)"
    using assms(1) d by (simp add: run_def)
  then have a: "run w = pre
         @ [Info (''[npm audit] Added   '' @ number_text w (added d) @ '' packages''),
            Info (''[npm audit] Removed '' @ number_text w (removed d) @ '' packages''),
            Info (''[npm audit] Changed '' @ number_text w (changed d) @ '' packages''),
            Info (''[npm audit] Audited '' @ number_text w (audited d) @ '' packages'')]
         @ run_report w wd (audit d)"
    by (simp add: run_parsed_def audit_result_def)
  have "run (w\<lparr>JSON_parse := (\<lambda>s. Inr (Audit (audit d)))\<rparr>)
      = pre @ run_parsed (w\<lparr>JSON_parse := (\<lambda>s. Inr (Audit (audit d)))\<rparr>) wd (Audit (audit d))"
    using run_setup_parser [OF assms(1), of "Audit (audit d)"] by (simp add: run_def)
  then have b: "run (w\<lparr>JSON_parse := (\<lambda>s. Inr (Audit (audit d)))\<rparr>)
      = pre @ run_report w wd (audit d)"
    by (simp add: run_parsed_def audit_result_def run_report_parser)
  from d a b show ?thesis by blast
qed

theorem run_unwraps_fix_envelope_witness:
  "isNPMAuditFix (AuditFix fix_envelope)
   \<and> run fix_world =
     [Debug (''Setting working directory to '' @ [CHR 0x22] @ ''/ws'' @ [CHR 0x22] @ ''.''),
      Chdir ''/ws'',
      Debug (''Running npm audit fix'' @ ellipsis),
      Exec ''npm audit --json fix'',
      Info ''[npm audit] Added   1 packages'',
      Info ''[npm audit] Removed 0 packages'',
      Info ''[npm audit] Changed 2 packages'',
      Info ''[npm audit] Audited 120 packages'',
      SetOutput ''issues-total'' (JNumber 2),
      SetOutput ''issues-fixable'' (JNumber 1),
      SetOutput ''issues-unfixable'' (JNumber 1),
      Info ''Found 1 fixable issues'',
      SetOutput ''markdown'' JUndefined]"
proof -
  have g: "isNPMAuditFix (AuditFix fix_envelope)"
    by (simp add: isNPMAuditFix_def)
  have n: "number_text fix_world = sample_number_text"
    by (simp add: fix_world_def sample_world_def)
  have t: "sample_number_text 1 = ''1''" "sample_number_text 0 = ''0''"
    "sample_number_text 2 = ''2''" "sample_number_text 120 = ''120''"
    by (simp_all add: sample_number_text_def show_nat.simps digit_def)
  have e: "added fix_envelope = 1" "removed fix_envelope = 0" "changed fix_envelope = 2"
    "audited fix_envelope = 120"
    "audit fix_envelope = audit_of [(''tough-cookie'', tough_cookie), (''foo'', unfixable_foo)]"
    by (simp_all add: fix_envelope_def)
  have r: "run_report fix_world ''/ws''
      (audit_of [(''tough-cookie'', tough_cookie), (''foo'', unfixable_foo)]) =
     [SetOutput ''issues-total'' (JNumber 2),
      SetOutput ''issues-fixable'' (JNumber 1),
      SetOutput ''issues-unfixable'' (JNumber 1),
      Info ''Found 1 fixable issues'',
      SetOutput ''markdown'' JUndefined]"
    by (simp add: run_report_def run_write_def fix_world_def sample_world_def
        audit_of_def tough_cookie_def unfixable_foo_def
        formatNpmAuditOutput_def Let_def isFixable_def js_string_def show_nat_1)
  from run_unwraps_fix_envelope [OF fix_world_setup g]
  have "run fix_world =
     [Debug (''Setting working directory to '' @ [CHR 0x22] @ ''/ws'' @ [CHR 0x22] @ ''.''),
      Chdir ''/ws'',
      Debug (''Running npm audit fix'' @ ellipsis),
      Exec ''npm audit --json fix'']
     @ [Info (''[npm audit] Added   '' @ number_text fix_world (added fix_envelope) @ '' packages''),
        Info (''[npm audit] Removed '' @ number_text fix_world (removed fix_envelope) @ '' packages''),
        Info (''[npm audit] Changed '' @ number_text fix_world (changed fix_envelope) @ '' packages''),
        Info (''[npm audit] Audited '' @ number_text fix_world (audited fix_envelope) @ '' packages'')]
     @ run_report fix_world ''/ws'' (audit fix_envelope)"
    by auto
  then show ?thesis using g
    by (simp add: n r t e)
qed

text \<open>
  C3. With the workspace \<^verbatim>\<open>/ws\<close> and the output path \<^verbatim>\<open>/ws-evil/report.md\<close>, which
  is not inside the workspace, the run does not fail: the text \<^verbatim>\<open>/ws\<close> is a prefix of
  the path, the guard of line 131 lets it pass, and the report is written there.
\<close>

theorem run_writes_outside_workspace:
  "\<not> inside_workspace ''/ws'' ''/ws-evil/report.md''
   \<and> run (sample_world ''/ws-evil/report.md'') =
     [Debug (''Setting working directory to '' @ [CHR 0x22] @ ''/ws'' @ [CHR 0x22] @ ''.''),
      Chdir ''/ws'',
      Debug (''Running npm audit '' @ ellipsis),
      Exec ''npm audit --json '',
      SetOutput ''issues-total'' (JNumber 0),
      SetOutput ''issues-fixable'' (JNumber 0),
      SetOutput ''issues-unfixable'' (JNumber 0),
      Info ''Found 0 fixable issues'',
      SetOutput ''markdown''
        (JString ''# Audit report\<newline>No fixable problems found (0 unfixable)''),
      WriteFile ''/ws-evil/report.md''
        (JString ''# Audit report\<newline>No fixable problems found (0 unfixable)'')]"
  by (simp add: inside_workspace_def run_def run_setup_def working_directory_def
      run_parsed_def run_report_def
      run_write_def sample_world_def sample_resolve_def sample_parse_def runNpmAudit_def
      slice_def audit_result_def audit_of_def formatNpmAuditOutput_def js_string_def
      show_nat_0 Let_def)

end
